theory Spec2Isabelle
  imports Main "HOL-Library.AList"
begin

section \<open>Python strings\<close>

text \<open>
  A Python \<open>str\<close> is modelled as a \<open>string\<close>, one \<open>char\<close> per code point, which covers the
  code points below 256. \<open>upper\<close> is the ASCII part of \<open>str.upper\<close>: it maps \<open>a\<close>..\<open>z\<close> to
  \<open>A\<close>..\<open>Z\<close> and leaves every other character alone. Python also changes characters above
  127: an accented letter goes to another character above 127, and the sharp s to \<open>SS\<close>. No
  allow-list of the program has a member with \<open>SS\<close> or with a character above 127 in it, so
  whether an upper-cased input is in an allow-list is the same here and there; what can
  differ is the echo of such an input inside a message. On names the model is exact for
  the names without characters above 127. The accented letters of the Portuguese messages
  are written by their code.
\<close>

definition ascii_lowercase :: string where
  "ascii_lowercase = ''abcdefghijklmnopqrstuvwxyz''"

definition ascii_uppercase :: string where
  "ascii_uppercase = ''ABCDEFGHIJKLMNOPQRSTUVWXYZ''"

definition digits :: string where
  "digits = ''0123456789''"

text \<open>The characters for which \<open>str.isspace\<close> holds, which are also those \<open>\s\<close> matches.\<close>

definition whitespace :: string where
  "whitespace = [CHR 0x09, CHR 0x0A, CHR 0x0B, CHR 0x0C, CHR 0x0D,
                 CHR 0x1C, CHR 0x1D, CHR 0x1E, CHR 0x1F, CHR 0x20, CHR 0x85, CHR 0xA0]"

definition is_upper :: "char \<Rightarrow> bool" where
  "is_upper c = (c \<in> set ascii_uppercase)"

definition is_lower :: "char \<Rightarrow> bool" where
  "is_lower c = (c \<in> set ascii_lowercase)"

definition is_digit :: "char \<Rightarrow> bool" where
  "is_digit c = (c \<in> set digits)"

definition is_space :: "char \<Rightarrow> bool" where
  "is_space c = (c \<in> set whitespace)"

definition upper_char :: "char \<Rightarrow> char" where
  "upper_char c = (case map_of (zip ascii_lowercase ascii_uppercase) c of
                     None \<Rightarrow> c | Some u \<Rightarrow> u)"

definition lower_char :: "char \<Rightarrow> char" where
  "lower_char c = (case map_of (zip ascii_uppercase ascii_lowercase) c of
                     None \<Rightarrow> c | Some l \<Rightarrow> l)"

text \<open>\<open>s.upper()\<close>\<close>

definition upper :: "string \<Rightarrow> string" where
  "upper s = map upper_char s"

text \<open>
  \<open>s.isdigit()\<close>: every character is a digit and there is at least one. Besides \<open>0\<close>..\<open>9\<close>
  the method accepts the superscript digits, three of which have a code below 256.
\<close>

definition superscript_digits :: string where
  "superscript_digits = [CHR 0xB2, CHR 0xB3, CHR 0xB9]"

definition isdigit :: "string \<Rightarrow> bool" where
  "isdigit s = (s \<noteq> [] \<and> list_all (\<lambda>c. c \<in> set (digits @ superscript_digits)) s)"

text \<open>\<open>sub in s\<close> on strings: \<open>sub\<close> occurs in \<open>s\<close> as a contiguous substring.\<close>

fun contains :: "string \<Rightarrow> string \<Rightarrow> bool" where
  "contains sub [] = (sub = [])"
| "contains sub (c # cs) = (take (length sub) (c # cs) = sub \<or> contains sub cs)"

text \<open>
  \<open>s.replace(old, new)\<close>: the non-overlapping occurrences of \<open>old\<close> are replaced from left
  to right in a single pass; the text produced by a replacement is not scanned again.
\<close>

fun replace_scan :: "string \<Rightarrow> string \<Rightarrow> string \<Rightarrow> string" where
  "replace_scan old new [] = []"
| "replace_scan old new (c # cs) =
     (if old \<noteq> [] \<and> take (length old) (c # cs) = old
      then new @ replace_scan old new (drop (length old) (c # cs))
      else c # replace_scan old new cs)"

definition replace :: "string \<Rightarrow> string \<Rightarrow> string \<Rightarrow> string" where
  "replace old new s =
     (if old = [] then new @ concat (map (\<lambda>c. c # new) s) else replace_scan old new s)"

text \<open>\<open>s.split()\<close>: the maximal runs of non-whitespace characters.\<close>

fun split_words :: "string \<Rightarrow> string \<Rightarrow> string list" where
  "split_words cur [] = (if cur = [] then [] else [cur])"
| "split_words cur (c # cs) =
     (if is_space c then (if cur = [] then split_words [] cs else cur # split_words [] cs)
      else split_words (cur @ [c]) cs)"

definition split :: "string \<Rightarrow> string list" where
  "split s = split_words [] s"

text \<open>\<open>s.split(sep)\<close> for a separator of one character; empty pieces are kept.\<close>

fun split_pieces :: "char \<Rightarrow> string \<Rightarrow> string \<Rightarrow> string list" where
  "split_pieces sep cur [] = [cur]"
| "split_pieces sep cur (c # cs) =
     (if c = sep then cur # split_pieces sep [] cs else split_pieces sep (cur @ [c]) cs)"

definition split_on :: "char \<Rightarrow> string \<Rightarrow> string list" where
  "split_on sep s = split_pieces sep [] s"

text \<open>\<open>sep.join(parts)\<close>\<close>

fun join :: "string \<Rightarrow> string list \<Rightarrow> string" where
  "join sep [] = []"
| "join sep [p] = p"
| "join sep (p # q # ps) = p @ sep @ join sep (q # ps)"

text \<open>\<open>s.ljust(n)\<close>\<close>

definition ljust :: "nat \<Rightarrow> string \<Rightarrow> string" where
  "ljust n s = s @ replicate (n - length s) (CHR '' '')"

text \<open>\<open>str(n)\<close> for a non-negative integer.\<close>

definition digit_char :: "nat \<Rightarrow> char" where
  "digit_char d = digits ! d"

fun str_nat :: "nat \<Rightarrow> string" where
  "str_nat n = (if n < 10 then [digit_char n]
                else str_nat (n div 10) @ [digit_char (n mod 10)])"

declare str_nat.simps [simp del]

text \<open>\<open>list(dict.fromkeys(xs))\<close>: duplicates removed, first occurrences kept in order.\<close>

fun fromkeys :: "'a list \<Rightarrow> 'a list \<Rightarrow> 'a list" where
  "fromkeys seen [] = []"
| "fromkeys seen (x # xs) =
     (if x \<in> set seen then fromkeys seen xs else x # fromkeys (x # seen) xs)"

text \<open>The accented letters of the messages.\<close>

definition a_acute :: char where "a_acute = CHR 0xE1"
definition a_tilde :: char where "a_tilde = CHR 0xE3"
definition c_cedil :: char where "c_cedil = CHR 0xE7"
definition e_acute :: char where "e_acute = CHR 0xE9"
definition e_circ :: char where "e_circ = CHR 0xEA"
definition i_acute :: char where "i_acute = CHR 0xED"
definition o_acute :: char where "o_acute = CHR 0xF3"
definition u_acute :: char where "u_acute = CHR 0xFA"


section \<open>Regular expressions\<close>

text \<open>
  The patterns of the program are sequences of single-character atoms, each taken once or
  under \<open>*\<close>, with an optional \<open>$\<close>. A bounded repetition \<open>a{n}\<close> is \<open>n\<close> copies of \<open>a\<close>.
  \<open>match_here\<close> tells whether some prefix of the text matches the pattern; for a yes/no
  answer the order in which a backtracking matcher tries the alternatives does not matter.
  The flag is \<open>re.IGNORECASE\<close>.
\<close>

datatype atom =
    Lit char
  | Space
  | UpperAlnum

datatype item =
    One atom
  | Star atom
  | Dollar

fun atom_match :: "bool \<Rightarrow> atom \<Rightarrow> char \<Rightarrow> bool" where
  "atom_match ic (Lit l) c = (if ic then lower_char l = lower_char c else l = c)"
| "atom_match ic Space c = is_space c"
| "atom_match ic UpperAlnum c = (is_upper c \<or> is_digit c \<or> (ic \<and> is_lower c))"

fun match_here :: "bool \<Rightarrow> item list \<Rightarrow> string \<Rightarrow> bool" where
  "match_here ic [] s = True"
| "match_here ic (Dollar # p) s = ((s = [] \<or> s = [CHR 0x0A]) \<and> match_here ic p s)"
| "match_here ic (One a # p) [] = False"
| "match_here ic (One a # p) (c # cs) = (atom_match ic a c \<and> match_here ic p cs)"
| "match_here ic (Star a # p) [] = match_here ic p []"
| "match_here ic (Star a # p) (c # cs) =
     (match_here ic p (c # cs) \<or> (atom_match ic a c \<and> match_here ic (Star a # p) cs))"

text \<open>\<open>re.match(p, s)\<close> tries position 0 only, where a leading \<open>^\<close> always holds.\<close>

definition re_match :: "bool \<Rightarrow> item list \<Rightarrow> string \<Rightarrow> bool" where
  "re_match ic p s = match_here ic p s"

text \<open>\<open>re.search(p, s)\<close> tries every position from left to right.\<close>

fun re_search :: "bool \<Rightarrow> item list \<Rightarrow> string \<Rightarrow> bool" where
  "re_search ic p [] = match_here ic p []"
| "re_search ic p (c # cs) = (match_here ic p (c # cs) \<or> re_search ic p cs)"

definition lits :: "string \<Rightarrow> item list" where
  "lits s = map (\<lambda>c. One (Lit c)) s"


section \<open>rules\_engine.py: the validation checks\<close>

text \<open>
  The file holds both sides of an unresolved merge, \<open>HEAD\<close> and \<open>7a10112\<close>. Every check of
  this section is the same text on both sides.

  The state of a \<open>RulesEngine\<close> object is its two attributes; \<open>mapping_config\<close> is what
  \<open>json.load\<close> returned, a value of an arbitrary type \<open>'cfg\<close>. Every method takes the object
  as its first argument \<open>self\<close>, as it does in Python.
\<close>

record 'cfg RulesEngine =
  rules_file :: string
  mapping_config :: 'cfg

record ValidationResult =
  is_valid :: bool
  error_message :: "string option"
  suggested_action :: "string option"

definition passed :: ValidationResult where
  "passed = \<lparr>is_valid = True, error_message = None, suggested_action = None\<rparr>"

definition failed :: "string \<Rightarrow> string \<Rightarrow> ValidationResult" where
  "failed msg action = \<lparr>is_valid = False, error_message = Some msg, suggested_action = Some action\<rparr>"

text \<open>\<open>d.get(k, '')\<close>\<close>

definition get_or_empty :: "(string \<rightharpoonup> string) \<Rightarrow> string \<Rightarrow> string" where
  "get_or_empty d k = (case d k of None \<Rightarrow> [] | Some v \<Rightarrow> v)"

definition nao :: string where
  "nao = ''n'' @ [a_tilde] @ ''o''"

definition autorizacao :: string where
  "autorizacao = ''autoriza'' @ [c_cedil, a_tilde] @ ''o''"

definition valid_classes :: "string list" where
  "valid_classes = [''Q'', ''S'', ''Y'']"

definition valid_codes :: "string list" where
  "valid_codes = [''PIC_S23'', ''PIC_S24'', ''PIC_S25'']"

definition validate_pic_authorization :: "'cfg RulesEngine \<Rightarrow> string \<Rightarrow> bool" where
  "validate_pic_authorization self auth_code = (auth_code \<in> set valid_codes)"

definition class_message :: "string \<Rightarrow> string" where
  "class_message class_original =
     ''Classe '' @ class_original @ '' '' @ nao @ '' '' @ [e_acute] @ '' eleg'' @ [i_acute]
       @ ''vel para estouro de classe''"

definition class_action :: string where
  "class_action = ''Verificar classe original da reserva''"

definition auth_message :: "string \<Rightarrow> string" where
  "auth_message auth_code =
     ''C'' @ [o_acute] @ ''digo de '' @ autorizacao @ '' '' @ auth_code @ '' '' @ nao
       @ '' permite estouro de classe''"

definition auth_action :: string where
  "auth_action = ''Verificar '' @ autorizacao @ '' PIC no Sabre''"

definition validate_estouro_classe ::
  "'cfg RulesEngine \<Rightarrow> (string \<rightharpoonup> string) \<Rightarrow> ValidationResult" where
  "validate_estouro_classe self extracted_data =
     (let class_original = upper (get_or_empty extracted_data ''classe'');
          auth_code = upper (get_or_empty extracted_data ''auth_code'')
      in if class_original \<notin> set valid_classes
         then failed (class_message class_original) class_action
         else if \<not> validate_pic_authorization self auth_code
         then failed (auth_message auth_code) auth_action
         else passed)"

text \<open>The pattern \<open>^[A-Z0-9]{6}$\<close>.\<close>

definition pnr_pattern :: "item list" where
  "pnr_pattern = replicate 6 (One UpperAlnum) @ [Dollar]"

definition invalido :: string where
  "invalido = ''inv'' @ [a_acute] @ ''lido''"

definition validate_pnr_format :: "'cfg RulesEngine \<Rightarrow> string \<Rightarrow> ValidationResult" where
  "validate_pnr_format self pnr =
     (if pnr = [] \<or> length pnr \<noteq> 6
      then failed (''PNR '' @ invalido @ '': '' @ pnr)
             (''Verificar formato do PNR (6 caracteres alfanum'' @ [e_acute] @ ''ricos)'')
      else if \<not> re_match False pnr_pattern pnr
      then failed (''PNR cont'' @ [e_acute] @ ''m caracteres '' @ invalido @ ''s: '' @ pnr)
             (''PNR deve conter apenas letras mai'' @ [u_acute] @ ''sculas e n''
                @ [u_acute] @ ''meros'')
      else passed)"

definition valid_statuses :: "string list" where
  "valid_statuses = [''HK'', ''SA'']"

definition validate_flight_status :: "'cfg RulesEngine \<Rightarrow> string \<Rightarrow> ValidationResult" where
  "validate_flight_status self status =
     (if upper status \<notin> set valid_statuses
      then failed (''Status de voo '' @ status @ '' '' @ nao @ '' permite estouro de classe'')
             (''Apenas status HK ou SA s'' @ [a_tilde] @ ''o permitidos'')
      else passed)"

definition month_map :: "(string \<times> string) list" where
  "month_map =
     [(''JAN'', ''01''), (''FEV'', ''02''), (''MAR'', ''03''), (''ABR'', ''04''),
      (''MAI'', ''05''), (''JUN'', ''06''), (''JUL'', ''07''), (''AGO'', ''08''),
      (''SET'', ''09''), (''OUT'', ''10''), (''NOV'', ''11''), (''DEZ'', ''12'')]"

text \<open>
  The argument of \<open>validate_date_format\<close> is annotated \<open>str\<close>, and a \<open>str\<close> is what the
  repository passes. The \<open>try\<close> of the function covers its whole body. On a \<open>str\<close> no
  operation of the body raises; on \<open>None\<close> or on an \<open>int\<close> the call of \<open>len\<close> raises
  \<open>TypeError\<close>. These three kinds of argument are modelled.
\<close>

datatype pyobj =
    PyStr string
  | PyNone
  | PyInt int

text \<open>The text of the \<open>TypeError\<close> that \<open>len\<close> raises on an object of the named type.\<close>

definition has_no_len :: "string \<Rightarrow> string" where
  "has_no_len type_name =
     ''object of type '' @ [CHR 0x27] @ type_name @ [CHR 0x27] @ '' has no len()''"

text \<open>
  The body of the \<open>try\<close>: \<open>Inl e\<close> when it raises an exception whose text is \<open>e\<close>, \<open>Inr\<close> of
  the returned pair otherwise. It reads the clock: \<open>year\<close> is the value of
  \<open>datetime.now().year\<close> at the call.
\<close>

definition date_format_body ::
  "'cfg RulesEngine \<Rightarrow> nat \<Rightarrow> pyobj \<Rightarrow> string + (bool \<times> string)" where
  "date_format_body self year date_str =
     (case date_str of
        PyNone \<Rightarrow> Inl (has_no_len ''NoneType'')
      | PyInt i \<Rightarrow> Inl (has_no_len ''int'')
      | PyStr s \<Rightarrow>
          Inr (if length s \<noteq> 5 \<or> \<not> isdigit (take 2 s)
               then (False, ''Formato de data '' @ invalido)
               else let day = take 2 s;
                        month_abbr = upper (drop 2 s)
                    in case map_of month_map month_abbr of
                         None \<Rightarrow>
                           (False, ''M'' @ [e_circ] @ ''s '' @ invalido @ '': '' @ month_abbr)
                       | Some month \<Rightarrow>
                           (True, day @ ''/'' @ month @ ''/'' @ str_nat year)))"

text \<open>The function: the body, with \<open>except Exception as e\<close> around it.\<close>

definition validate_date_format ::
  "'cfg RulesEngine \<Rightarrow> nat \<Rightarrow> pyobj \<Rightarrow> bool \<times> string" where
  "validate_date_format self year date_str =
     (case date_format_body self year date_str of
        Inr result \<Rightarrow> result
      | Inl e \<Rightarrow> (False, ''Erro ao processar data: '' @ e))"

definition valid_carriers :: "string list" where
  "valid_carriers = [''LA'', ''LP'', ''4C'', ''JJ'']"

definition validate_carrier_code :: "'cfg RulesEngine \<Rightarrow> string \<Rightarrow> ValidationResult" where
  "validate_carrier_code self carrier =
     (if upper carrier \<notin> set valid_carriers
      then failed (''Carrier '' @ carrier @ '' '' @ nao @ '' mapeado'')
             (''Carrier deve ser um dos: '' @ join '', '' valid_carriers)
      else passed)"


section \<open>rules\_engine.py: the name-correction classifier\<close>

text \<open>
  Python names with a leading underscore lose it here. \<open>_normalize_name\<close>,
  \<open>_is_duplication_correction\<close> and \<open>_is_agname_correction\<close> are the same on both sides of the
  merge; \<open>_is_orthographic_correction\<close>, \<open>_is_inverted_names\<close> and \<open>_is_addition_correction\<close>
  differ and are given once per side, with the side as suffix, and so is
  \<open>validate_name_correction\<close>, which calls them.
\<close>

definition titles :: "string list" where
  "titles = [''MS'', ''MR'', ''MSTR'', ''JR'', ''NETO'', ''FILHO'']"

definition normalize_name :: "'cfg RulesEngine \<Rightarrow> string \<Rightarrow> string" where
  "normalize_name self name =
     (let name_upper = foldl (\<lambda>name_upper title. replace title [] name_upper) (upper name) titles
      in join '' '' (split name_upper))"



definition is_duplication_correction ::
  "'cfg RulesEngine \<Rightarrow> string \<Rightarrow> string \<Rightarrow> bool" where
  "is_duplication_correction self old_name new_name =
     (let old_parts = split old_name; new_parts = split new_name
      in new_parts = fromkeys [] old_parts)"

definition agnames :: "string list" where
  "agnames = [''JR'', ''NETO'', ''FILHO'', ''SR'']"

definition is_agname_correction ::
  "'cfg RulesEngine \<Rightarrow> string \<Rightarrow> string \<Rightarrow> bool" where
  "is_agname_correction self old_name new_name =
     (let old_has_agname = list_ex (\<lambda>agname. contains agname (upper old_name)) agnames;
          new_has_agname = list_ex (\<lambda>agname. contains agname (upper new_name)) agnames
      in old_has_agname \<noteq> new_has_agname)"

definition documentation_required :: ValidationResult where
  "documentation_required =
     failed (''Corre'' @ [c_cedil, a_tilde] @ ''o de nome requer documenta'' @ [c_cedil, a_tilde]
               @ ''o comprobat'' @ [o_acute] @ ''ria'')
            (''Anexar documenta'' @ [c_cedil, a_tilde] @ ''o para mudan'' @ [c_cedil]
               @ ''a legal (casamento, div'' @ [o_acute] @ ''rcio, etc.)'')"

subsection \<open>The \<open>HEAD\<close> side\<close>

text \<open>
  \<open>similar old new\<close> stands for \<open>SequenceMatcher(None, old, new).ratio() > 0.70\<close>, a call
  into the standard library \<open>difflib\<close>.
\<close>

definition is_orthographic_correction_HEAD ::
  "(string \<Rightarrow> string \<Rightarrow> bool) \<Rightarrow> 'cfg RulesEngine \<Rightarrow> string \<Rightarrow> string \<Rightarrow> bool" where
  "is_orthographic_correction_HEAD similar self old_name new_name = similar old_name new_name"

fun inverted_names_loop :: "char list \<Rightarrow> string \<Rightarrow> string \<Rightarrow> bool" where
  "inverted_names_loop [] old_name new_name = False"
| "inverted_names_loop (separator # separators) old_name new_name =
     (if separator \<in> set old_name \<or> separator \<in> set new_name
      then let old_parts = (if separator \<in> set old_name
                            then split_on separator old_name else [old_name]);
               new_parts = (if separator \<in> set new_name
                            then split_on separator new_name else [new_name])
           in if length old_parts = length new_parts \<and> length old_parts > 1
                 \<and> old_parts = rev new_parts
              then True
              else inverted_names_loop separators old_name new_name
      else inverted_names_loop separators old_name new_name)"

definition is_inverted_names_HEAD ::
  "'cfg RulesEngine \<Rightarrow> string \<Rightarrow> string \<Rightarrow> bool" where
  "is_inverted_names_HEAD self old_name new_name =
     inverted_names_loop [CHR '' '', CHR ''/''] old_name new_name"

definition is_addition_correction_HEAD ::
  "'cfg RulesEngine \<Rightarrow> string \<Rightarrow> string \<Rightarrow> bool" where
  "is_addition_correction_HEAD self old_name new_name =
     (let old_parts = set (split (replace ''/'' '' '' old_name));
          new_parts = set (split (replace ''/'' '' '' new_name))
      in old_parts \<subseteq> new_parts \<and> card new_parts > card old_parts)"

definition validate_name_correction_HEAD ::
  "(string \<Rightarrow> string \<Rightarrow> bool) \<Rightarrow> 'cfg RulesEngine \<Rightarrow> string \<Rightarrow> string
     \<Rightarrow> ValidationResult" where
  "validate_name_correction_HEAD similar self old_name new_name =
     (let old_clean = normalize_name self old_name;
          new_clean = normalize_name self new_name
      in if old_clean = new_clean then passed
         else if is_orthographic_correction_HEAD similar self old_clean new_clean then passed
         else if is_inverted_names_HEAD self old_clean new_clean then passed
         else if is_addition_correction_HEAD self old_clean new_clean then passed
         else if is_duplication_correction self old_clean new_clean then passed
         else if is_agname_correction self old_clean new_clean then passed
         else documentation_required)"

subsection \<open>The \<open>7a10112\<close> side\<close>

definition max_diffs :: nat where
  "max_diffs = 3"

text \<open>The loop over the zipped padded names; \<open>diff_count\<close> is the count so far.\<close>

fun orthographic_loop :: "nat \<Rightarrow> (char \<times> char) list \<Rightarrow> bool" where
  "orthographic_loop diff_count [] = (diff_count \<le> max_diffs)"
| "orthographic_loop diff_count ((old_char, new_char) # rest) =
     (if old_char \<noteq> new_char
      then (if diff_count + 1 > max_diffs then False
            else orthographic_loop (diff_count + 1) rest)
      else orthographic_loop diff_count rest)"

definition is_orthographic_correction_7a10112 ::
  "'cfg RulesEngine \<Rightarrow> string \<Rightarrow> string \<Rightarrow> bool" where
  "is_orthographic_correction_7a10112 self old_name new_name =
     (let max_len = max (length old_name) (length new_name);
          old_padded = ljust max_len old_name;
          new_padded = ljust max_len new_name
      in orthographic_loop 0 (zip old_padded new_padded))"

definition is_inverted_names_7a10112 ::
  "'cfg RulesEngine \<Rightarrow> string \<Rightarrow> string \<Rightarrow> bool" where
  "is_inverted_names_7a10112 self old_name new_name =
     (let old_parts = split old_name; new_parts = split new_name
      in if length old_parts \<noteq> length new_parts then False
         else old_parts = rev new_parts)"

definition is_addition_correction_7a10112 ::
  "'cfg RulesEngine \<Rightarrow> string \<Rightarrow> string \<Rightarrow> bool" where
  "is_addition_correction_7a10112 self old_name new_name =
     (let old_parts = set (split old_name); new_parts = set (split new_name)
      in old_parts \<subseteq> new_parts \<and> card new_parts > card old_parts)"

definition validate_name_correction_7a10112 ::
  "'cfg RulesEngine \<Rightarrow> string \<Rightarrow> string \<Rightarrow> ValidationResult" where
  "validate_name_correction_7a10112 self old_name new_name =
     (let old_clean = normalize_name self old_name;
          new_clean = normalize_name self new_name
      in if old_clean = new_clean then passed
         else if is_orthographic_correction_7a10112 self old_clean new_clean then passed
         else if is_inverted_names_7a10112 self old_clean new_clean then passed
         else if is_addition_correction_7a10112 self old_clean new_clean then passed
         else if is_duplication_correction self old_clean new_clean then passed
         else if is_agname_correction self old_clean new_clean then passed
         else documentation_required)"


section \<open>sabre\_screen.py\<close>

text \<open>
  A \<open>SabreField\<close> also carries a confidence and a position; no function modelled here reads
  them and they are left out. The image is a value of an arbitrary type \<open>'img\<close>. The screen
  holds the \<open>RulesEngine\<close> it was built with.
\<close>

record SabreField =
  field_name :: string
  field_value :: string

record ('img, 'cfg) SabreScreen =
  rules_engine :: "'cfg RulesEngine"
  raw_image :: "'img option"
  extracted_text :: string
  extracted_fields :: "string \<rightharpoonup> SabreField"
  is_valid_screen :: bool

text \<open>The eight patterns of \<open>sabre_indicators\<close>, in the order of the source.\<close>

definition sabre_indicators :: "item list list" where
  "sabre_indicators =
     [lits ''Reserva'' @ [Star Space, One (Lit (CHR ''-'')), Star Space]
        @ replicate 6 (One UpperAlnum),
      lits ''Nomes'',
      lits ''Voo'' @ [Star Space] @ lits ''(CIA)'',
      lits ''Voo'' @ [Star Space] @ lits ''(Numero)'',
      lits ''Cls'',
      lits ''De-Para'',
      lits ''Data'',
      lits ''Stp'' @ [Star Space] @ lits ''Nbr'']"

text \<open>The counting loop, with \<open>re.search(pattern, extracted_text, re.IGNORECASE)\<close>.\<close>

fun count_indicators :: "nat \<Rightarrow> item list list \<Rightarrow> string \<Rightarrow> nat" where
  "count_indicators found_indicators [] text = found_indicators"
| "count_indicators found_indicators (pattern # patterns) text =
     count_indicators
       (if re_search True pattern text then found_indicators + 1 else found_indicators)
       patterns text"

text \<open>\<open>_extract_text_with_ocr\<close> is a placeholder that returns the text already stored.\<close>

definition extract_text_with_ocr :: "('img, 'cfg) SabreScreen \<Rightarrow> string" where
  "extract_text_with_ocr self = extracted_text self"

text \<open>
  \<open>cvtColor_ok img\<close> tells whether \<open>cv2.cvtColor(img, cv2.COLOR_BGR2GRAY)\<close> returns; when
  it raises, the \<open>except\<close> branch prints and returns \<open>False\<close>. The function returns its verdict
  and the screen, whose \<open>extracted_text\<close> and \<open>is_valid_screen\<close> it assigns.
\<close>

definition detect_sabre_pattern ::
  "('img \<Rightarrow> bool) \<Rightarrow> ('img, 'cfg) SabreScreen \<Rightarrow> bool \<times> ('img, 'cfg) SabreScreen" where
  "detect_sabre_pattern cvtColor_ok self =
     (case raw_image self of
        None \<Rightarrow> (False, self)
      | Some img \<Rightarrow>
          if \<not> cvtColor_ok img then (False, self)
          else let text = extract_text_with_ocr self;
                   self = self\<lparr>extracted_text := text\<rparr>;
                   found_indicators = count_indicators 0 sabre_indicators text;
                   self = self\<lparr>is_valid_screen := (found_indicators \<ge> 5)\<rparr>
               in (is_valid_screen self, self))"

text \<open>
  \<open>parse_fields\<close> builds its dictionary with five regular-expression extractions over the
  text; \<open>extract\<close> stands for them. None of them raises on a \<open>str\<close>.
\<close>

definition parse_fields ::
  "(string \<Rightarrow> (string \<rightharpoonup> SabreField)) \<Rightarrow> ('img, 'cfg) SabreScreen
     \<Rightarrow> (string \<rightharpoonup> SabreField) \<times> ('img, 'cfg) SabreScreen" where
  "parse_fields extract self =
     (if \<not> is_valid_screen self then (Map.empty, self)
      else let fields = extract (extracted_text self)
           in (fields, self\<lparr>extracted_fields := fields\<rparr>))"

definition validate_integrity :: "('img, 'cfg) SabreScreen \<Rightarrow> ValidationResult list" where
  "validate_integrity self =
     (let fields = extracted_fields self;
          results = [];
          results = (case fields ''pnr'' of
                       None \<Rightarrow> results
                     | Some pnr \<Rightarrow> results @ [validate_pnr_format (rules_engine self) (field_value pnr)]);
          results = (case fields ''status'' of
                       None \<Rightarrow> results
                     | Some status \<Rightarrow>
                         results @ [validate_flight_status (rules_engine self)
                                      (field_value status)]);
          results = (case fields ''carrier'' of
                       None \<Rightarrow> results
                     | Some carrier \<Rightarrow>
                         results @ [validate_carrier_code (rules_engine self)
                                      (field_value carrier)]);
          results = (case (fields ''classe'', fields ''auth_code'') of
                       (Some classe, Some auth_code) \<Rightarrow>
                          results @ [validate_estouro_classe (rules_engine self)
                                       [''classe'' \<mapsto> field_value classe,
                                        ''auth_code'' \<mapsto> field_value auth_code]]
                     | other \<Rightarrow> results)
      in results)"


section \<open>latam\_form.py\<close>

datatype transform =
    Upper
  | Unchanged
  | Str
  | Digits4
  | Format_date_brazilian
  | Dash_to_slash

record field_config =
  selector :: string
  transform :: "transform option"
  field_type :: "string option"
  read_only :: bool

definition input_field :: "string \<Rightarrow> transform \<Rightarrow> field_config" where
  "input_field sel t =
     \<lparr>selector = sel, transform = Some t, field_type = None, read_only = False\<rparr>"

definition select_field :: "string \<Rightarrow> field_config" where
  "select_field sel =
     \<lparr>selector = sel, transform = None, field_type = Some ''select'', read_only = False\<rparr>"

text \<open>The dictionary \<open>self.field_mappings\<close>, in insertion order.\<close>

definition field_mappings :: "(string \<times> field_config) list" where
  "field_mappings =
     [(''pnr'', input_field ''input[id=\"form:txt_pnrCdg\"]'' Upper),
      (''cidade'', input_field ''input[id=\"form:ciudadPrioridadNombreCiudad_input\"]'' Unchanged),
      (''pais'', \<lparr>selector = ''input[id=\"form:ciudadPrioridadNombrePais\"]'', transform = None,
                  field_type = None, read_only = True\<rparr>),
      (''departamento'', select_field ''label[id=\"form:departamentos_label\"]''),
      (''razao'', select_field ''label[id=\"form:razonEnabled_label\"]''),
      (''autorizador'', select_field ''label[id=\"form:authorizerEnabled_label\"]''),
      (''num_segmento'', input_field ''input[id=\"form:txt_segmentNum\"]'' Str),
      (''carrier'', select_field ''label[id=\"form:carrierEnabled_label\"]''),
      (''vuelo'', input_field ''input[id=\"form:txt_vuelotNum\"]'' Digits4),
      (''classe'', select_field ''label[id=\"form:classEnabled_label\"]''),
      (''data_voo'', input_field ''input[id=\"form:dateFlight_input\"]'' Format_date_brazilian),
      (''segmento'', input_field ''input[id=\"form:txt_segment\"]'' Dash_to_slash),
      (''pax'', select_field ''label[id=\"form:pax_paxID_label\"]''),
      (''cto_des'', input_field ''input[id=\"form:txt_ctoDes\"]'' Unchanged)]"

text \<open>The browser page is a state of an arbitrary type \<open>'page\<close>.\<close>

record 'page LatamForm =
  is_form_loaded :: bool
  page :: 'page

text \<open>
  The calls made on the form during a run, in order. A \<open>Fill_field\<close> event holds the
  arguments of a call of \<open>_fill_field\<close> and the result it returned.
\<close>

datatype event =
    Fill_all
  | Fill_field string string ValidationResult
  | Submit_form

fun is_fill_field :: "event \<Rightarrow> bool" where
  "is_fill_field (Fill_field fname v r) = True"
| "is_fill_field other = False"

fun is_failed_fill :: "event \<Rightarrow> bool" where
  "is_failed_fill (Fill_field fname v r) = (\<not> is_valid r)"
| "is_failed_fill other = False"

definition form_not_loaded :: ValidationResult where
  "form_not_loaded =
     failed (''Formul'' @ [a_acute] @ ''rio '' @ nao @ '' carregado'')
            (''Focar no formul'' @ [a_acute] @ ''rio Latam'')"

text \<open>
  \<open>_fill_field\<close> applies the transform of the field and drives the browser, all inside a
  \<open>try\<close> whose \<open>except Exception\<close> branch returns a failed result: it returns a
  \<open>ValidationResult\<close> whatever happens (the transform of \<open>vuelo\<close>, for one, calls \<open>re.sub\<close> in
  a module that does not import \<open>re\<close>, and the \<open>NameError\<close> becomes a failed result). It is
  the parameter \<open>fill_field\<close>, a function of the page state and of its three arguments that
  returns the result and the new page state.
  The loop of \<open>fill_all\<close> goes through \<open>self.field_mappings\<close> and fills the fields present in
  \<open>extracted_data\<close>. Nothing else in the loop raises, so the \<open>except\<close> branch of \<open>fill_all\<close> is
  never taken.
\<close>

fun fill_all_loop ::
  "('page \<Rightarrow> string \<Rightarrow> string \<Rightarrow> field_config \<Rightarrow> ValidationResult \<times> 'page)
     \<Rightarrow> (string \<times> field_config) list \<Rightarrow> (string \<times> string) list
     \<Rightarrow> ValidationResult list \<times> event list \<times> 'page
     \<Rightarrow> ValidationResult list \<times> event list \<times> 'page" where
  "fill_all_loop fill_field [] extracted_data state = state"
| "fill_all_loop fill_field ((fname, config) # rest) extracted_data (results, events, pg) =
     (case map_of extracted_data fname of
        None \<Rightarrow> fill_all_loop fill_field rest extracted_data (results, events, pg)
      | Some v \<Rightarrow>
          (case fill_field pg fname v config of
             (result, pg') \<Rightarrow>
               fill_all_loop fill_field rest extracted_data
                 (results @ [result], events @ [Fill_field fname v result], pg')))"

definition fill_all ::
  "('page \<Rightarrow> string \<Rightarrow> string \<Rightarrow> field_config \<Rightarrow> ValidationResult \<times> 'page)
     \<Rightarrow> 'page LatamForm \<Rightarrow> (string \<times> string) list
     \<Rightarrow> ValidationResult list \<times> event list \<times> 'page" where
  "fill_all fill_field self extracted_data =
     (if \<not> is_form_loaded self then ([form_not_loaded], [], page self)
      else fill_all_loop fill_field field_mappings extracted_data ([], [], page self))"

text \<open>
  \<open>submit_form\<close>: past the test of \<open>is_form_loaded\<close> the body looks for the button and clicks
  it, again inside a \<open>try\<close> that turns every exception into a failed result; \<open>submit\<close> stands
  for that part.
\<close>

definition submit_form ::
  "('page \<Rightarrow> ValidationResult \<times> 'page) \<Rightarrow> 'page LatamForm \<Rightarrow> ValidationResult \<times> 'page" where
  "submit_form submit self =
     (if \<not> is_form_loaded self then (form_not_loaded, page self) else submit (page self))"


section \<open>form\_filler.py\<close>

text \<open>
  \<open>FillResult\<close> without its \<open>processing_time\<close>, a difference of two clock readings. Its
  \<open>error_message\<close> is \<open>fill_error_message\<close> here.
\<close>

record FillResult =
  success :: bool
  field_results :: "ValidationResult list"
  submission_result :: "ValidationResult option"
  fill_error_message :: "string option"

record ('page, 'img, 'cfg) FormFiller =
  latam_form :: "'page LatamForm option"
  sabre_screen :: "('img, 'cfg) SabreScreen option"

text \<open>The local dictionary \<open>field_mappings\<close> of \<open>_map_sabre_to_latam\<close>.\<close>

definition sabre_to_latam :: "(string \<times> string) list" where
  "sabre_to_latam =
     [(''pnr'', ''pnr''), (''carrier'', ''carrier''), (''flight_num'', ''vuelo''),
      (''classe'', ''classe''), (''data_voo'', ''data_voo''), (''trecho'', ''segmento''),
      (''status'', ''num_segmento''), (''passenger_name'', ''pax'')]"

fun map_fields_loop ::
  "(string \<times> string) list \<Rightarrow> (string \<rightharpoonup> SabreField) \<Rightarrow> (string \<times> string) list
     \<Rightarrow> (string \<times> string) list" where
  "map_fields_loop [] sabre_fields mapped_fields = mapped_fields"
| "map_fields_loop ((sabre_field, latam_field) # rest) sabre_fields mapped_fields =
     (case sabre_fields sabre_field of
        None \<Rightarrow> map_fields_loop rest sabre_fields mapped_fields
      | Some f \<Rightarrow>
          map_fields_loop rest sabre_fields
            (AList.update latam_field (field_value f) mapped_fields))"

definition map_sabre_to_latam :: "(string \<rightharpoonup> SabreField) \<Rightarrow> (string \<times> string) list" where
  "map_sabre_to_latam sabre_fields =
     (let mapped_fields = map_fields_loop sabre_to_latam sabre_fields [];
          mapped_fields = AList.update ''cidade'' ''SCL'' mapped_fields;
          mapped_fields = AList.update ''departamento''
                            (''Departamento T'' @ [e_acute] @ ''cnico'') mapped_fields;
          mapped_fields = AList.update ''razao'' ''PIC - Upgrade'' mapped_fields;
          mapped_fields = AList.update ''autorizador'' ''Supervisor Autorizado'' mapped_fields;
          mapped_fields = AList.update ''cto_des'' ''UPGRADE'' mapped_fields
      in mapped_fields)"

text \<open>
  What a run of \<open>process_complete_workflow\<close> leaves: the \<open>FillResult\<close> it returns, the calls
  it made on the form, and the values of its locals \<open>validation_results\<close> and
  \<open>field_mapping\<close>, \<open>None\<close> when the run ended before assigning them.
\<close>

record run =
  run_result :: FillResult
  run_events :: "event list"
  run_validation :: "ValidationResult list option"
  run_mapping :: "(string \<times> string) list option"

definition stopped :: "ValidationResult list \<Rightarrow> string \<Rightarrow> FillResult" where
  "stopped results msg =
     \<lparr>success = False, field_results = results, submission_result = None,
      fill_error_message = Some msg\<rparr>"

text \<open>The \<open>except Exception as e\<close> branch of the workflow.\<close>

definition workflow_error :: "string \<Rightarrow> run" where
  "workflow_error e =
     \<lparr>run_result = stopped [] (''Workflow error: '' @ e), run_events = [],
      run_validation = None, run_mapping = None\<rparr>"

definition none_has_no_attribute :: "string \<Rightarrow> string" where
  "none_has_no_attribute attr =
     [CHR 0x27] @ ''NoneType'' @ [CHR 0x27] @ '' object has no attribute ''
       @ [CHR 0x27] @ attr @ [CHR 0x27]"

text \<open>
  \<open>ocr\<close> is what \<open>self.image_processor.process_image_input(image_source)\<close> does: \<open>Inl e\<close> when
  the call raises with text \<open>e\<close> (as it does when \<open>initialize_components\<close> was never called),
  \<open>Inr (img, text)\<close> when it returns. The other parameters are those of the functions
  called.
\<close>

definition process_complete_workflow ::
  "('page \<Rightarrow> string \<Rightarrow> string \<Rightarrow> field_config \<Rightarrow> ValidationResult \<times> 'page)
     \<Rightarrow> ('page \<Rightarrow> ValidationResult \<times> 'page)
     \<Rightarrow> ('img \<Rightarrow> bool)
     \<Rightarrow> (string \<Rightarrow> (string \<rightharpoonup> SabreField))
     \<Rightarrow> string + ('img option \<times> string)
     \<Rightarrow> ('page, 'img, 'cfg) FormFiller \<Rightarrow> run" where
  "process_complete_workflow fill_field submit cvtColor_ok extract ocr self =
     (case ocr of
        Inl e \<Rightarrow> workflow_error e
      | Inr (img, text) \<Rightarrow>
          if text = [] then
            \<lparr>run_result = stopped [] ''No text extracted from image'', run_events = [],
             run_validation = None, run_mapping = None\<rparr>
          else
            (case sabre_screen self of
               None \<Rightarrow> workflow_error (none_has_no_attribute ''raw_image'')
             | Some screen \<Rightarrow>
                 let screen = screen\<lparr>raw_image := img, extracted_text := text\<rparr>;
                     (detected, screen) = detect_sabre_pattern cvtColor_ok screen;
                     screen = screen\<lparr>is_valid_screen := detected\<rparr>
                 in if \<not> is_valid_screen screen then
                      \<lparr>run_result = stopped [] ''Invalid Sabre screen format detected'',
                       run_events = [], run_validation = None, run_mapping = None\<rparr>
                    else
                      let (extracted_fields, screen) = parse_fields extract screen;
                          validation_results = validate_integrity screen;
                          critical_failures = filter (\<lambda>r. \<not> is_valid r) validation_results
                      in if critical_failures \<noteq> [] then
                           \<lparr>run_result =
                              stopped validation_results
                                (''Critical validation failures: ''
                                   @ str_nat (length critical_failures)),
                            run_events = [], run_validation = Some validation_results,
                            run_mapping = None\<rparr>
                         else
                           (case latam_form self of
                              None \<Rightarrow>
                                \<lparr>run_result =
                                   stopped validation_results
                                     ''Latam form not available or not loaded'',
                                 run_events = [], run_validation = Some validation_results,
                                 run_mapping = None\<rparr>
                            | Some form \<Rightarrow>
                                if \<not> is_form_loaded form then
                                  \<lparr>run_result =
                                     stopped validation_results
                                       ''Latam form not available or not loaded'',
                                   run_events = [], run_validation = Some validation_results,
                                   run_mapping = None\<rparr>
                                else
                                  let field_mapping = map_sabre_to_latam extracted_fields;
                                      (fill_results, fill_events, pg) =
                                         fill_all fill_field form field_mapping;
                                      (submitted, pg) =
                                         submit_form submit (form\<lparr>page := pg\<rparr>);
                                      total_success =
                                         (list_all is_valid fill_results \<and> is_valid submitted)
                                  in \<lparr>run_result =
                                        \<lparr>success = total_success, field_results = fill_results,
                                         submission_result = Some submitted,
                                         fill_error_message = None\<rparr>,
                                      run_events = [Fill_all] @ fill_events @ [Submit_form],
                                      run_validation = Some validation_results,
                                      run_mapping = Some field_mapping\<rparr>)))"


section \<open>Test data\<close>

text \<open>The text that \<open>test_ocr_integration\<close> of \<open>test_comprehensive.py\<close> gives to the screen.\<close>

definition mock_sabre_text :: string where
  "mock_sabre_text =
     join [CHR 0x0A]
       ['''',
        ''            Reserva - ABC123'',
        ''            Nomes'',
        ''            SILVA/ALBERTO'',
        ''            '',
        ''            Voo (CIA) Voo (Numero) Cls De-Para Data Stp Nbr'',
        ''            LA         6375        Y     GRU-SCL  13MAR  HK'',
        ''            '']"

text \<open>
  A run on a text with five of the anchors, whose extraction gives six fields, the class
  being a parameter. The form is loaded, the submission succeeds, and filling fails on
  \<open>vuelo\<close> only.
\<close>

definition example_fields :: "string \<Rightarrow> string \<Rightarrow> (string \<rightharpoonup> SabreField)" where
  "example_fields cls text =
     [''pnr'' \<mapsto> \<lparr>field_name = ''pnr'', field_value = ''ABC123''\<rparr>,
      ''carrier'' \<mapsto> \<lparr>field_name = ''carrier'', field_value = ''LA''\<rparr>,
      ''flight_num'' \<mapsto> \<lparr>field_name = ''flight_num'', field_value = ''6375''\<rparr>,
      ''classe'' \<mapsto> \<lparr>field_name = ''classe'', field_value = cls\<rparr>,
      ''status'' \<mapsto> \<lparr>field_name = ''status'', field_value = ''HK''\<rparr>,
      ''auth_code'' \<mapsto> \<lparr>field_name = ''auth_code'', field_value = ''PIC_S23''\<rparr>]"

definition example_fill_field ::
  "unit \<Rightarrow> string \<Rightarrow> string \<Rightarrow> field_config \<Rightarrow> ValidationResult \<times> unit" where
  "example_fill_field pg fname v config =
     (if fname = ''vuelo''
      then failed ''Erro ao preencher campo vuelo'' ''Verificar se o campo''
      else passed, pg)"

definition example_submit :: "unit \<Rightarrow> ValidationResult \<times> unit" where
  "example_submit pg = (passed, pg)"

definition example_engine :: "unit RulesEngine" where
  "example_engine = \<lparr>rules_file = ''rules/sabre_mapping.json'', mapping_config = ()\<rparr>"

definition example_filler :: "(unit, unit, unit) FormFiller" where
  "example_filler =
     \<lparr>latam_form = Some \<lparr>is_form_loaded = True, page = ()\<rparr>,
      sabre_screen = Some \<lparr>rules_engine = example_engine, raw_image = None,
                            extracted_text = [],
                            extracted_fields = Map.empty, is_valid_screen = False\<rparr>\<rparr>"

definition example_run :: "string \<Rightarrow> run" where
  "example_run cls =
     process_complete_workflow example_fill_field example_submit (\<lambda>img. True)
       (example_fields cls) (Inr (Some (), ''Reserva - ABC123 Nomes Cls De-Para Data''))
       example_filler"

text \<open>
  The pairs that the loop of \<open>fill_all\<close> picks: for each key of the field table, in its
  order, the value of that key in the data, when there is one.
\<close>

definition attempted ::
  "(string \<times> field_config) list \<Rightarrow> (string \<times> string) list \<Rightarrow> (string \<times> string) list" where
  "attempted table extracted_data =
     concat (map (\<lambda>(fname, config). case map_of extracted_data fname of
                                       None \<Rightarrow> [] | Some v \<Rightarrow> [(fname, v)]) table)"

section \<open>Properties of the validation checks\<close>

lemma match_pnr_pattern:
  "length s = n \<Longrightarrow>
   match_here False (replicate n (One UpperAlnum) @ [Dollar]) s
     = list_all (\<lambda>c. is_upper c \<or> is_digit c) s"
  by (induction n arbitrary: s) (auto simp: length_Suc_conv)

lemma lower_not_upper_digit: "is_lower c \<Longrightarrow> \<not> (is_upper c \<or> is_digit c)"
  by (auto simp: is_lower_def is_upper_def is_digit_def ascii_lowercase_def
        ascii_uppercase_def digits_def)


text \<open>
  C4. \<open>validate_pnr_format\<close> passes exactly the strings of six characters that are all
  uppercase letters \<open>A\<close>..\<open>Z\<close> or digits: it fails every string of another length and every
  string holding a lowercase letter or a symbol.
\<close>

theorem validate_pnr_format_iff:
  "is_valid (validate_pnr_format self pnr) \<longleftrightarrow>
     length pnr = 6 \<and> (\<forall>c \<in> set pnr. is_upper c \<or> is_digit c)"
proof (cases "length pnr = 6")
  case True
  then have "re_match False pnr_pattern pnr = list_all (\<lambda>c. is_upper c \<or> is_digit c) pnr"
    by (simp add: re_match_def pnr_pattern_def match_pnr_pattern)
  with True show ?thesis
    by (auto simp: validate_pnr_format_def failed_def passed_def list_all_iff)
next
  case False
  then show ?thesis by (simp add: validate_pnr_format_def failed_def)
qed

theorem validate_pnr_format_iff_witness:
  "is_valid (validate_pnr_format example_engine ''ABC123'')
   \<and> \<not> is_valid (validate_pnr_format example_engine ''abc123'')
   \<and> \<not> is_valid (validate_pnr_format example_engine ''ABC12'')
   \<and> \<not> is_valid (validate_pnr_format example_engine ''ABC-12'')"
  using validate_pnr_format_iff [of example_engine "''ABC123''"]
    validate_pnr_format_iff [of example_engine "''abc123''"]
    validate_pnr_format_iff [of example_engine "''ABC12''"]
    validate_pnr_format_iff [of example_engine "''ABC-12''"]
  by (simp add: is_upper_def is_digit_def ascii_uppercase_def digits_def)



text \<open>
  C6, as stated: an input whose first two characters are not digits gets a failure. The
  test of the function is \<open>str.isdigit\<close>, which also accepts the superscript digits: a date
  that starts with superscript two and three, neither of them one of \<open>0\<close>..\<open>9\<close>, is
  transformed with success.
\<close>

theorem superscript_day_accepted:
  "\<not> is_digit (CHR 0xB2) \<and> \<not> is_digit (CHR 0xB3)
   \<and> validate_date_format example_engine 2026 (PyStr ([CHR 0xB2, CHR 0xB3] @ ''MAR''))
       = (True, [CHR 0xB2, CHR 0xB3] @ ''/03/2026'')"
  by code_simp

text \<open>
  C6, amended. The date transform maps \<open>13MAR\<close> to success with \<open>13/03/\<close> followed by the
  current year. On a string it succeeds exactly when the length is 5, the first two
  characters are digits for \<open>str.isdigit\<close> (\<open>0\<close>..\<open>9\<close> and the superscript digits) and the month
  abbreviation, upper-cased as the function does, is a key of the table of twelve; any
  other string gives a failure pair. It never raises: on a string the body of the \<open>try\<close>
  raises nothing, and whatever the body raises on another argument, as \<open>len\<close> does on
  \<open>None\<close>, comes back as the failure pair of the \<open>except\<close> branch.
\<close>

theorem validate_date_format_spec:
  "validate_date_format self year (PyStr ''13MAR'') = (True, ''13/03/'' @ str_nat year)
   \<and> (fst (validate_date_format self year (PyStr s)) \<longleftrightarrow>
        length s = 5 \<and> isdigit (take 2 s) \<and> upper (drop 2 s) \<in> fst ` set month_map)
   \<and> (length s \<noteq> 5 \<or> \<not> isdigit (take 2 s) \<or> upper (drop 2 s) \<notin> fst ` set month_map
        \<longrightarrow> (\<exists>msg. validate_date_format self year (PyStr s) = (False, msg)))
   \<and> (\<exists>result. date_format_body self year (PyStr s) = Inr result)
   \<and> (date_format_body self year v = Inl e
        \<longrightarrow> validate_date_format self year v = (False, ''Erro ao processar data: '' @ e))
   \<and> validate_date_format self year PyNone
       = (False, ''Erro ao processar data: '' @ has_no_len ''NoneType'')"
proof (intro conjI)
  show "validate_date_format self year (PyStr ''13MAR'') = (True, ''13/03/'' @ str_nat year)"
    by (simp add: validate_date_format_def date_format_body_def isdigit_def digits_def
          upper_def upper_char_def ascii_lowercase_def ascii_uppercase_def month_map_def)
next
  have known: "upper (drop 2 s) \<in> fst ` set month_map
      \<Longrightarrow> \<exists>month. map_of month_map (upper (drop 2 s)) = Some month"
    by (metis map_of_eq_None_iff not_Some_eq)
  have unknown: "upper (drop 2 s) \<notin> fst ` set month_map
      \<Longrightarrow> map_of month_map (upper (drop 2 s)) = None"
    by (simp add: map_of_eq_None_iff)
  show iff: "fst (validate_date_format self year (PyStr s)) \<longleftrightarrow>
      length s = 5 \<and> isdigit (take 2 s) \<and> upper (drop 2 s) \<in> fst ` set month_map"
  proof (cases "length s = 5 \<and> isdigit (take 2 s)")
    case False
    then show ?thesis by (auto simp: validate_date_format_def date_format_body_def)
  next
    case True
    show ?thesis
    proof (cases "upper (drop 2 s) \<in> fst ` set month_map")
      case k: True
      from known [OF k] obtain month where "map_of month_map (upper (drop 2 s)) = Some month" ..
      with True k show ?thesis
        by (simp add: validate_date_format_def date_format_body_def Let_def)
    next
      case k: False
      from unknown [OF k] True k show ?thesis
        by (simp add: validate_date_format_def date_format_body_def Let_def)
    qed
  qed
  show "length s \<noteq> 5 \<or> \<not> isdigit (take 2 s) \<or> upper (drop 2 s) \<notin> fst ` set month_map
        \<longrightarrow> (\<exists>msg. validate_date_format self year (PyStr s) = (False, msg))"
  proof
    assume "length s \<noteq> 5 \<or> \<not> isdigit (take 2 s) \<or> upper (drop 2 s) \<notin> fst ` set month_map"
    with iff have "\<not> fst (validate_date_format self year (PyStr s))" by blast
    then show "\<exists>msg. validate_date_format self year (PyStr s) = (False, msg)"
      by (cases "validate_date_format self year (PyStr s)") simp
  qed
next
  show "\<exists>result. date_format_body self year (PyStr s) = Inr result"
    by (simp add: date_format_body_def)
next
  show "date_format_body self year v = Inl e
        \<longrightarrow> validate_date_format self year v = (False, ''Erro ao processar data: '' @ e)"
    by (simp add: validate_date_format_def)
next
  show "validate_date_format self year PyNone
       = (False, ''Erro ao processar data: '' @ has_no_len ''NoneType'')"
    by (simp add: validate_date_format_def date_format_body_def)
qed

theorem validate_date_format_spec_witness:
  "validate_date_format example_engine 2026 (PyStr ''13MAR'') = (True, ''13/03/2026'')
   \<and> \<not> fst (validate_date_format example_engine 2026 (PyStr ''13FOO''))
   \<and> \<not> fst (validate_date_format example_engine 2026 (PyStr ''3MAR''))
   \<and> \<not> fst (validate_date_format example_engine 2026 (PyStr ''XXMAR''))
   \<and> date_format_body example_engine 2026 (PyInt 13) = Inl (has_no_len ''int'')
   \<and> validate_date_format example_engine 2026 (PyInt 13)
       = (False, ''Erro ao processar data: '' @ has_no_len ''int'')"
proof -
  have foo: "upper (drop 2 ''13FOO'') \<notin> fst ` set month_map"
    by (simp add: upper_def upper_char_def ascii_lowercase_def ascii_uppercase_def
          month_map_def)
  have len: "length ''3MAR'' \<noteq> 5" by simp
  have dig: "\<not> isdigit (take 2 ''XXMAR'')"
    by (simp add: isdigit_def digits_def superscript_digits_def)
  have raised: "date_format_body example_engine 2026 (PyInt 13) = Inl (has_no_len ''int'')"
    by (simp add: date_format_body_def)
  show ?thesis
    using validate_date_format_spec [of example_engine 2026 "''13FOO''" "PyInt 13" "has_no_len ''int''"]
      validate_date_format_spec [of example_engine 2026 "''3MAR''"]
      validate_date_format_spec [of example_engine 2026 "''XXMAR''"] foo len dig raised
    by (auto simp: str_nat.simps digit_char_def digits_def)
qed

text \<open>
  C9. The carrier, flight-status and class/authorization checks upper-case their input
  before the membership test: each passes exactly when the upper-cased input is in its
  allow-list, so every lowercase spelling of an allowed value passes. \<open>validate_pnr_format\<close>
  tests the string as it is given: it passes exactly the strings of six uppercase letters
  or digits, and a PNR holding a lowercase letter fails.
\<close>

theorem case_normalisation:
  "(is_valid (validate_carrier_code self carrier)
      \<longleftrightarrow> upper carrier \<in> {''LA'', ''LP'', ''4C'', ''JJ''})
   \<and> (is_valid (validate_flight_status self status) \<longleftrightarrow> upper status \<in> {''HK'', ''SA''})
   \<and> (is_valid (validate_estouro_classe self [''classe'' \<mapsto> cls, ''auth_code'' \<mapsto> auth])
        \<longleftrightarrow> upper cls \<in> {''Q'', ''S'', ''Y''}
            \<and> upper auth \<in> {''PIC_S23'', ''PIC_S24'', ''PIC_S25''})
   \<and> (allowed_carrier \<in> {''LA'', ''LP'', ''4C'', ''JJ''}
        \<longrightarrow> is_valid (validate_carrier_code self (map lower_char allowed_carrier)))
   \<and> (allowed_status \<in> {''HK'', ''SA''}
        \<longrightarrow> is_valid (validate_flight_status self (map lower_char allowed_status)))
   \<and> (allowed_class \<in> {''Q'', ''S'', ''Y''}
        \<and> allowed_code \<in> {''PIC_S23'', ''PIC_S24'', ''PIC_S25''}
        \<longrightarrow> is_valid (validate_estouro_classe self
               [''classe'' \<mapsto> map lower_char allowed_class,
                ''auth_code'' \<mapsto> map lower_char allowed_code]))
   \<and> (is_valid (validate_pnr_format self pnr)
        \<longleftrightarrow> length pnr = 6 \<and> (\<forall>c \<in> set pnr. is_upper c \<or> is_digit c))
   \<and> ((\<exists>c \<in> set pnr. is_lower c) \<longrightarrow> \<not> is_valid (validate_pnr_format self pnr))"
proof (intro conjI)
  show carrier: "is_valid (validate_carrier_code self carrier)
      \<longleftrightarrow> upper carrier \<in> {''LA'', ''LP'', ''4C'', ''JJ''}" for carrier
    by (simp add: validate_carrier_code_def valid_carriers_def passed_def failed_def)
  show status: "is_valid (validate_flight_status self status)
      \<longleftrightarrow> upper status \<in> {''HK'', ''SA''}" for status
    by (simp add: validate_flight_status_def valid_statuses_def passed_def failed_def)
  show estouro: "is_valid (validate_estouro_classe self [''classe'' \<mapsto> cls, ''auth_code'' \<mapsto> auth])
      \<longleftrightarrow> upper cls \<in> {''Q'', ''S'', ''Y''}
          \<and> upper auth \<in> {''PIC_S23'', ''PIC_S24'', ''PIC_S25''}" for cls auth
    by (simp add: validate_estouro_classe_def Let_def get_or_empty_def valid_classes_def
          valid_codes_def validate_pic_authorization_def passed_def failed_def)
  show "allowed_carrier \<in> {''LA'', ''LP'', ''4C'', ''JJ''}
        \<longrightarrow> is_valid (validate_carrier_code self (map lower_char allowed_carrier))"
    unfolding carrier
    by (auto simp: upper_def upper_char_def lower_char_def ascii_lowercase_def
          ascii_uppercase_def)
  show "allowed_status \<in> {''HK'', ''SA''}
        \<longrightarrow> is_valid (validate_flight_status self (map lower_char allowed_status))"
    unfolding status
    by (auto simp: upper_def upper_char_def lower_char_def ascii_lowercase_def
          ascii_uppercase_def)
  show "allowed_class \<in> {''Q'', ''S'', ''Y''}
        \<and> allowed_code \<in> {''PIC_S23'', ''PIC_S24'', ''PIC_S25''}
        \<longrightarrow> is_valid (validate_estouro_classe self
               [''classe'' \<mapsto> map lower_char allowed_class,
                ''auth_code'' \<mapsto> map lower_char allowed_code])"
    unfolding estouro
    by (auto simp: upper_def upper_char_def lower_char_def ascii_lowercase_def
          ascii_uppercase_def)
  show pnr: "is_valid (validate_pnr_format self pnr)
        \<longleftrightarrow> length pnr = 6 \<and> (\<forall>c \<in> set pnr. is_upper c \<or> is_digit c)"
  proof (cases "length pnr = 6")
    case True
    then have "re_match False pnr_pattern pnr = list_all (\<lambda>c. is_upper c \<or> is_digit c) pnr"
      by (simp add: re_match_def pnr_pattern_def match_pnr_pattern)
    with True show ?thesis
      by (auto simp: validate_pnr_format_def failed_def passed_def list_all_iff)
  next
    case False
    then show ?thesis by (simp add: validate_pnr_format_def failed_def)
  qed
  show "(\<exists>c \<in> set pnr. is_lower c) \<longrightarrow> \<not> is_valid (validate_pnr_format self pnr)"
    using lower_not_upper_digit pnr by blast
qed

theorem case_normalisation_witness:
  "is_valid (validate_carrier_code example_engine ''la'')
   \<and> \<not> is_valid (validate_carrier_code example_engine ''xx'')
   \<and> is_valid (validate_flight_status example_engine ''hk'')
   \<and> \<not> is_valid (validate_flight_status example_engine ''xx'')
   \<and> is_valid (validate_estouro_classe example_engine
        [''classe'' \<mapsto> ''y'', ''auth_code'' \<mapsto> ''pic_s23''])
   \<and> \<not> is_valid (validate_estouro_classe example_engine
        [''classe'' \<mapsto> ''f'', ''auth_code'' \<mapsto> ''pic_s23''])
   \<and> is_valid (validate_pnr_format example_engine ''ABC123'')
   \<and> \<not> is_valid (validate_pnr_format example_engine ''abC123'')"
proof -
  have u: "upper ''la'' = ''LA''" "upper ''hk'' = ''HK''" "upper ''y'' = ''Y''"
    "upper ''pic_s23'' = ''PIC_S23''" "upper ''xx'' = ''XX''" "upper ''f'' = ''F''"
    by (simp_all add: upper_def upper_char_def ascii_lowercase_def ascii_uppercase_def)
  have low: "map lower_char ''LA'' = ''la''" "map lower_char ''HK'' = ''hk''"
    "map lower_char ''Y'' = ''y''" "map lower_char ''PIC_S23'' = ''pic_s23''"
    by (simp_all add: lower_char_def ascii_lowercase_def ascii_uppercase_def)
  have l: "\<exists>c \<in> set ''abC123''. is_lower c"
    by (simp add: is_lower_def ascii_lowercase_def)
  have ok: "length ''ABC123'' = 6 \<and> (\<forall>c \<in> set ''ABC123''. is_upper c \<or> is_digit c)"
    by (simp add: is_upper_def is_digit_def ascii_uppercase_def digits_def)
  show ?thesis
    using case_normalisation [of example_engine "''xx''" "''xx''" "''f''" "''pic_s23''"
        "''LA''" "''HK''" "''Y''" "''PIC_S23''" "''abC123''"]
      case_normalisation [of example_engine "''la''" "''hk''" "''y''" "''pic_s23''"
        "''LA''" "''HK''" "''Y''" "''PIC_S23''" "''ABC123''"] u low l ok
    by auto
qed


section \<open>Properties of the name-correction classifier\<close>

lemma split_pieces_no_sep: "sep \<notin> set s \<Longrightarrow> split_pieces sep cur s = [cur @ s]"
  by (induction s arbitrary: cur) auto

lemma split_on_no_sep: "sep \<notin> set s \<Longrightarrow> split_on sep s = [s]"
  by (simp add: split_on_def split_pieces_no_sep)

lemma split_on_many_has_sep: "length (split_on sep s) \<ge> 2 \<Longrightarrow> sep \<in> set s"
  using split_on_no_sep [of sep s] by fastforce

lemma inverted_names_loop_hit:
  assumes "sep \<in> set seps"
    and "split_on sep old_name = rev (split_on sep new_name)"
    and "length (split_on sep old_name) \<ge> 2"
  shows "inverted_names_loop seps old_name new_name"
  using assms(1)
proof (induction seps)
  case Nil
  then show ?case by simp
next
  case (Cons x xs)
  have in_old: "sep \<in> set old_name" using assms(3) by (rule split_on_many_has_sep)
  have "length (split_on sep new_name) \<ge> 2" using assms(2,3) by simp
  then have in_new: "sep \<in> set new_name" by (rule split_on_many_has_sep)
  show ?case
  proof (cases "x = sep")
    case True
    with in_old in_new assms(2,3) show ?thesis by (simp add: Let_def)
  next
    case False
    with Cons have "inverted_names_loop xs old_name new_name" by simp
    then show ?thesis by (simp add: Let_def)
  qed
qed

text \<open>
  On the \<open>HEAD\<close> side a pair whose normalized names split on the space, or on the slash, into
  at least two pieces with the new pieces the reverse of the old is approved, whatever the
  similarity test answers.
\<close>

lemma inversion_approved_HEAD:
  assumes "sep = CHR '' '' \<or> sep = CHR ''/''"
    and "split_on sep (normalize_name self old_name)
           = rev (split_on sep (normalize_name self new_name))"
    and "length (split_on sep (normalize_name self old_name)) \<ge> 2"
  shows "is_valid (validate_name_correction_HEAD similar self old_name new_name)"
proof -
  have "is_inverted_names_HEAD self (normalize_name self old_name) (normalize_name self new_name)"
    unfolding is_inverted_names_HEAD_def
    using assms by (intro inverted_names_loop_hit [of sep]) auto
  then show ?thesis
    by (simp add: validate_name_correction_HEAD_def Let_def passed_def)
qed

lemma luisa_galvez_HEAD:
  "is_valid (validate_name_correction_HEAD similar self ''LUISA/GALVEZ'' ''GALVEZ/LUISA'')
   \<and> normalize_name self ''LUISA/GALVEZ'' \<noteq> normalize_name self ''GALVEZ/LUISA''
   \<and> is_inverted_names_HEAD self (normalize_name self ''LUISA/GALVEZ'') (normalize_name self ''GALVEZ/LUISA'')"
proof -
  have differ: "normalize_name self ''LUISA/GALVEZ'' \<noteq> normalize_name self ''GALVEZ/LUISA''"
    by code_simp
  have inverted:
    "is_inverted_names_HEAD self (normalize_name self ''LUISA/GALVEZ'') (normalize_name self ''GALVEZ/LUISA'')"
    by code_simp
  from inverted
  have "is_valid (validate_name_correction_HEAD similar self ''LUISA/GALVEZ'' ''GALVEZ/LUISA'')"
    by (simp add: validate_name_correction_HEAD_def Let_def passed_def)
  with differ inverted show ?thesis by simp
qed

text \<open>
  The \<open>HEAD\<close> side tries one separator at a time. When the tokens of a name are separated
  by a space here and a slash there, no single separator shows the reversal.
\<close>

lemma mixed_separators_HEAD:
  "\<not> is_inverted_names_HEAD self
        (normalize_name self ''ANA MARIA/SOUZA'') (normalize_name self ''SOUZA/MARIA ANA'')
   \<and> validate_name_correction_HEAD (\<lambda>old_name new_name. False) self
         ''ANA MARIA/SOUZA'' ''SOUZA/MARIA ANA'' = documentation_required"
  by code_simp

text \<open>
  C7. A pair of names whose normalized forms split into the same number (at least two) of
  tokens, the new sequence the reverse of the old, is to be approved, and
  \<open>LUISA/GALVEZ\<close>, \<open>GALVEZ/LUISA\<close> in particular. The \<open>7a10112\<close> side of the file splits on
  whitespace only: the two names are one token each, no other heuristic applies, and the
  pair is rejected as requiring documentation, although its pieces around the slash are two
  and reversed.
\<close>

theorem inversion_rejected_7a10112:
  "validate_name_correction_7a10112 self ''LUISA/GALVEZ'' ''GALVEZ/LUISA'' = documentation_required
   \<and> \<not> is_valid (validate_name_correction_7a10112 self ''LUISA/GALVEZ'' ''GALVEZ/LUISA'')
   \<and> split_on (CHR ''/'') (normalize_name self ''LUISA/GALVEZ'') = [''LUISA'', ''GALVEZ'']
   \<and> split_on (CHR ''/'') (normalize_name self ''GALVEZ/LUISA'') = rev [''LUISA'', ''GALVEZ'']"
  by code_simp
























section \<open>Properties of the format detection\<close>

text \<open>
  With an image that converts to grayscale, the verdict is that at least five of the eight
  patterns are found; and whatever the image, a positive verdict needs five.
\<close>

lemma detect_with_image:
  "raw_image self = Some img \<Longrightarrow> cvtColor_ok img \<Longrightarrow>
   fst (detect_sabre_pattern cvtColor_ok self)
     = (count_indicators 0 sabre_indicators (extracted_text self) \<ge> 5)"
  by (simp add: detect_sabre_pattern_def extract_text_with_ocr_def Let_def)

lemma detect_needs_five:
  "fst (detect_sabre_pattern cvtColor_ok self) \<Longrightarrow>
   count_indicators 0 sabre_indicators (extracted_text self) \<ge> 5"
  by (auto simp: detect_sabre_pattern_def extract_text_with_ocr_def Let_def
      split: option.splits if_splits)

lemma mock_sabre_text_indicators: "count_indicators 0 sabre_indicators mock_sabre_text = 8"
  by code_simp

text \<open>
  C3. The verdict of \<open>detect_sabre_pattern\<close> is to be true exactly when at least five of the
  eight patterns match the text. On a screen that holds the text of the test, which matches
  all eight, and no image, as the test builds it, the verdict is false: the function
  returns before it looks at the text.
\<close>

theorem detect_sabre_pattern_no_image:
  "count_indicators 0 sabre_indicators mock_sabre_text = 8
   \<and> \<not> fst (detect_sabre_pattern cvtColor_ok
          \<lparr>rules_engine = engine, raw_image = None, extracted_text = mock_sabre_text,
           extracted_fields = Map.empty, is_valid_screen = False\<rparr>)"
  using mock_sabre_text_indicators by (simp add: detect_sabre_pattern_def)


section \<open>Properties of the workflow\<close>

lemma filter_invalid_nonempty:
  "filter (\<lambda>r. \<not> is_valid r) rs \<noteq> [] \<longleftrightarrow> \<not> list_all is_valid rs"
  by (induction rs) auto

lemma example_run_F:
  "example_run ''F'' =
     \<lparr>run_result =
        stopped [passed, passed, passed, failed (class_message ''F'') class_action]
          ''Critical validation failures: 1'',
      run_events = [],
      run_validation =
        Some [passed, passed, passed, failed (class_message ''F'') class_action],
      run_mapping = None\<rparr>"
  by code_simp

text \<open>
  C1. In a run whose validation outcomes include a failed one, the workflow returns at that
  point: the result is unsuccessful and carries the whole list of validation outcomes, and
  no call was made on the form, neither \<open>fill_all\<close> nor \<open>_fill_field\<close> nor \<open>submit_form\<close>.
\<close>

theorem failed_validation_stops:
  assumes "run_validation
             (process_complete_workflow fill_field submit cvtColor_ok extract ocr self)
             = Some validation_results"
    and "\<not> list_all is_valid validation_results"
  shows "run_events (process_complete_workflow fill_field submit cvtColor_ok extract ocr self)
           = []
    \<and> run_result (process_complete_workflow fill_field submit cvtColor_ok extract ocr self)
        = \<lparr>success = False, field_results = validation_results, submission_result = None,
           fill_error_message =
             Some (''Critical validation failures: ''
                     @ str_nat (length (filter (\<lambda>r. \<not> is_valid r) validation_results)))\<rparr>"
  using assms
  by (auto simp: process_complete_workflow_def workflow_error_def stopped_def Let_def
        filter_invalid_nonempty
      split: sum.splits option.splits prod.splits if_splits)

theorem failed_validation_stops_witness:
  "run_validation (example_run ''F'')
     = Some [passed, passed, passed, failed (class_message ''F'') class_action]
   \<and> \<not> list_all is_valid [passed, passed, passed, failed (class_message ''F'') class_action]
   \<and> run_events (example_run ''F'') = []
   \<and> \<not> success (run_result (example_run ''F''))
   \<and> field_results (run_result (example_run ''F''))
       = [passed, passed, passed, failed (class_message ''F'') class_action]"
proof -
  have v: "run_validation (example_run ''F'')
      = Some [passed, passed, passed, failed (class_message ''F'') class_action]"
    by (simp add: example_run_F)
  have f: "\<not> list_all is_valid
      [passed, passed, passed, failed (class_message ''F'') class_action]"
    by (simp add: passed_def failed_def)
  from failed_validation_stops [OF v [unfolded example_run_def] f] v f
  show ?thesis by (simp add: example_run_def)
qed

lemma fill_all_loop_calls:
  "fill_all_loop ff table m (rs, evs, pg) = (rs', evs', pg') \<Longrightarrow>
   \<exists>calls. evs' = evs @ map (\<lambda>(f, v, r). Fill_field f v r) calls
     \<and> rs' = rs @ map (\<lambda>(f, v, r). r) calls
     \<and> map (\<lambda>(f, v, r). (f, v)) calls = attempted table m"
proof (induction table arbitrary: rs evs pg)
  case Nil
  then show ?case by (simp add: attempted_def)
next
  case (Cons a table)
  obtain fname config where a: "a = (fname, config)" by (cases a)
  show ?case
  proof (cases "map_of m fname")
    case None
    with Cons.prems a have "fill_all_loop ff table m (rs, evs, pg) = (rs', evs', pg')"
      by simp
    from Cons.IH [OF this] None a show ?thesis by (simp add: attempted_def)
  next
    case (Some v)
    obtain result pg1 where ff: "ff pg fname v config = (result, pg1)"
      by (cases "ff pg fname v config")
    with Cons.prems a Some
    have "fill_all_loop ff table m (rs @ [result], evs @ [Fill_field fname v result], pg1)
            = (rs', evs', pg')"
      by simp
    from Cons.IH [OF this] obtain calls where
      c: "evs' = (evs @ [Fill_field fname v result]) @ map (\<lambda>(f, v, r). Fill_field f v r) calls"
         "rs' = (rs @ [result]) @ map (\<lambda>(f, v, r). r) calls"
         "map (\<lambda>(f, v, r). (f, v)) calls = attempted table m"
      by blast
    show ?thesis
      by (rule exI [of _ "(fname, v, result) # calls"])
         (use c a Some in \<open>simp add: attempted_def\<close>)
  qed
qed

lemma map_fields_loop_keys:
  "fst ` set (map_fields_loop tbl sf acc) \<subseteq> fst ` set acc \<union> snd ` set tbl"
proof (induction tbl arbitrary: acc)
  case Nil
  then show ?case by simp
next
  case (Cons a tbl)
  obtain s l where a: "a = (s, l)" by (cases a)
  show ?case
  proof (cases "sf s")
    case None
    with a Cons.IH [of acc] show ?thesis by auto
  next
    case (Some f)
    with a Cons.IH [of "AList.update l (field_value f) acc"] show ?thesis
      by (auto simp: dom_update)
  qed
qed

lemma map_fields_loop_distinct:
  "distinct (map fst acc) \<Longrightarrow> distinct (map fst (map_fields_loop tbl sf acc))"
proof (induction tbl arbitrary: acc)
  case Nil
  then show ?case by simp
next
  case (Cons a tbl)
  obtain s l where a: "a = (s, l)" by (cases a)
  from Cons a show ?case by (cases "sf s") (simp_all add: distinct_update)
qed

lemma mapped_distinct: "distinct (map fst (map_sabre_to_latam sf))"
  by (simp add: map_sabre_to_latam_def Let_def distinct_update map_fields_loop_distinct)

lemma mapped_keys: "fst ` set (map_sabre_to_latam sf) \<subseteq> fst ` set field_mappings"
proof -
  have "fst ` set (map_fields_loop sabre_to_latam sf []) \<subseteq> snd ` set sabre_to_latam"
    using map_fields_loop_keys [of sabre_to_latam sf "[]"] by simp
  also have "\<dots> \<subseteq> fst ` set field_mappings"
    by (simp add: sabre_to_latam_def field_mappings_def)
  finally have "fst ` set (map_fields_loop sabre_to_latam sf []) \<subseteq> fst ` set field_mappings" .
  moreover have "{''cidade'', ''departamento'', ''razao'', ''autorizador'', ''cto_des''}
                   \<subseteq> fst ` set field_mappings"
    by (simp add: field_mappings_def)
  ultimately show ?thesis
    by (auto simp: map_sabre_to_latam_def Let_def dom_update)
qed

lemma field_mappings_distinct: "distinct (map fst field_mappings)"
  by (simp add: field_mappings_def)

lemma attempted_keys:
  "map fst (attempted table m) = filter (\<lambda>f. f \<in> fst ` set m) (map fst table)"
proof (induction table)
  case Nil
  then show ?case by (simp add: attempted_def)
next
  case (Cons a table)
  obtain f c where a: "a = (f, c)" by (cases a)
  have step: "attempted (a # table) m
      = (case map_of m f of None \<Rightarrow> [] | Some v \<Rightarrow> [(f, v)]) @ attempted table m"
    by (simp add: attempted_def a)
  show ?case
  proof (cases "map_of m f")
    case None
    then have "f \<notin> fst ` set m" by (simp add: map_of_eq_None_iff)
    with step None Cons a show ?thesis by simp
  next
    case (Some v)
    then have "f \<in> fst ` set m" by (metis map_of_eq_None_iff option.distinct(1))
    with step Some Cons a show ?thesis by simp
  qed
qed

lemma attempted_subset: "set (attempted table m) \<subseteq> set m"
  by (auto simp: attempted_def split: option.splits dest: map_of_SomeD [OF sym])

lemma attempted_all:
  assumes "distinct (map fst table)" "distinct (map fst m)" "fst ` set m \<subseteq> fst ` set table"
  shows "length (attempted table m) = length m \<and> set (attempted table m) = set m"
proof -
  have keys: "set (map fst (attempted table m)) = fst ` set m"
    using assms(3) by (auto simp: attempted_keys)
  have dk: "distinct (map fst (attempted table m))"
    using assms(1) by (simp add: attempted_keys)
  have "length (attempted table m) = card (set (map fst (attempted table m)))"
    using dk by (metis distinct_card length_map)
  also have "\<dots> = card (fst ` set m)" using keys by simp
  also have "\<dots> = length m" using assms(2) by (metis distinct_card length_map set_map)
  finally have len: "length (attempted table m) = length m" .
  have da: "distinct (attempted table m)"
    using dk by (rule distinct_map [THEN iffD1, THEN conjunct1])
  have dm: "distinct m" using assms(2) by (rule distinct_map [THEN iffD1, THEN conjunct1])
  have "card (set (attempted table m)) = card (set m)"
    using len da dm by (simp add: distinct_card)
  with attempted_subset [of table m] have "set (attempted table m) = set m"
    by (simp add: card_subset_eq)
  with len show ?thesis by simp
qed

text \<open>A run that made a call on the form went through the fill phase.\<close>

lemma workflow_filling:
  assumes "run_events (process_complete_workflow ff sub cvt ext ocr self) \<noteq> []"
  shows "\<exists>sf form fill_results fill_events pg.
           run_mapping (process_complete_workflow ff sub cvt ext ocr self)
             = Some (map_sabre_to_latam sf)
         \<and> is_form_loaded form
         \<and> fill_all ff form (map_sabre_to_latam sf) = (fill_results, fill_events, pg)
         \<and> run_events (process_complete_workflow ff sub cvt ext ocr self)
             = [Fill_all] @ fill_events @ [Submit_form]
         \<and> field_results (run_result (process_complete_workflow ff sub cvt ext ocr self))
             = fill_results
         \<and> (success (run_result (process_complete_workflow ff sub cvt ext ocr self))
              \<longrightarrow> list_all is_valid fill_results)"
  using assms
  by (fastforce simp: process_complete_workflow_def workflow_error_def Let_def
      split: sum.splits option.splits prod.splits if_splits)

lemma example_run_Y:
  "run_validation (example_run ''Y'') = Some [passed, passed, passed, passed]
   \<and> map is_failed_fill (run_events (example_run ''Y''))
       = [False, False, False, False, False, False, False, False, True, False, False, False]"
  by code_simp

text \<open>
  C2. In a run whose validations all pass and in which exactly one call of \<open>_fill_field\<close>
  returns a failed result, there are as many calls of \<open>_fill_field\<close> as there are mapped
  fields, every mapped field and its value is the subject of one of them, and the result of
  the run is unsuccessful.
\<close>

theorem fail_soft_fill:
  assumes "run_validation (process_complete_workflow fill_field submit cvtColor_ok extract ocr self)
             = Some validation_results"
    and "list_all is_valid validation_results"
    and "length (filter is_failed_fill
           (run_events (process_complete_workflow fill_field submit cvtColor_ok extract ocr self)))
         = 1"
  shows "\<exists>field_mapping.
      run_mapping (process_complete_workflow fill_field submit cvtColor_ok extract ocr self)
        = Some field_mapping
    \<and> length (filter is_fill_field
          (run_events (process_complete_workflow fill_field submit cvtColor_ok extract ocr self)))
        = length field_mapping
    \<and> (\<forall>(fname, v) \<in> set field_mapping. \<exists>res. Fill_field fname v res
          \<in> set (run_events
                 (process_complete_workflow fill_field submit cvtColor_ok extract ocr self)))
    \<and> \<not> success (run_result
          (process_complete_workflow fill_field submit cvtColor_ok extract ocr self))"
proof -
  let ?r = "process_complete_workflow fill_field submit cvtColor_ok extract ocr self"
  from assms(3) have "run_events ?r \<noteq> []" by auto
  from workflow_filling [OF this] obtain sf form fill_results fill_events pg where
    m: "run_mapping ?r = Some (map_sabre_to_latam sf)"
    and loaded: "is_form_loaded form"
    and fa: "fill_all fill_field form (map_sabre_to_latam sf) = (fill_results, fill_events, pg)"
    and evs: "run_events ?r = [Fill_all] @ fill_events @ [Submit_form]"
    and frs: "field_results (run_result ?r) = fill_results"
    and succ: "success (run_result ?r) \<longrightarrow> list_all is_valid fill_results"
    by blast
  let ?m = "map_sabre_to_latam sf"
  from fa loaded have "fill_all_loop fill_field field_mappings ?m ([], [], page form)
      = (fill_results, fill_events, pg)"
    by (simp add: fill_all_def)
  from fill_all_loop_calls [OF this] obtain calls where
    fe: "fill_events = map (\<lambda>(f, v, r). Fill_field f v r) calls"
    and fr: "fill_results = map (\<lambda>(f, v, r). r) calls"
    and at: "map (\<lambda>(f, v, r). (f, v)) calls = attempted field_mappings ?m"
    by auto
  have all: "length (attempted field_mappings ?m) = length ?m
             \<and> set (attempted field_mappings ?m) = set ?m"
    by (rule attempted_all [OF field_mappings_distinct mapped_distinct mapped_keys])
  have fills: "filter is_fill_field (run_events ?r) = fill_events"
    unfolding evs fe by (induction calls) auto
  have "length fill_events = length calls" by (simp add: fe)
  also have "\<dots> = length (attempted field_mappings ?m)" using at by (metis length_map)
  finally have n: "length (filter is_fill_field (run_events ?r)) = length ?m"
    using fills all by simp
  have each: "\<forall>(f, v) \<in> set ?m. \<exists>res. Fill_field f v res \<in> set (run_events ?r)"
  proof clarify
    fix f v assume "(f, v) \<in> set ?m"
    with all have "(f, v) \<in> set (map (\<lambda>(f, v, r). (f, v)) calls)" using at by simp
    then obtain res where "(f, v, res) \<in> set calls" by auto
    then have "Fill_field f v res \<in> set fill_events" unfolding fe by force
    then show "\<exists>res. Fill_field f v res \<in> set (run_events ?r)" unfolding evs by auto
  qed
  have failed: "filter is_failed_fill (run_events ?r)
      = map (\<lambda>(f, v, r). Fill_field f v r) (filter (\<lambda>(f, v, r). \<not> is_valid r) calls)"
    unfolding evs fe by (induction calls) auto
  with assms(3) have "filter (\<lambda>(f, v, r). \<not> is_valid r) calls \<noteq> []" by auto
  then obtain f v r where "(f, v, r) \<in> set calls" "\<not> is_valid r"
    by (auto simp: filter_empty_conv)
  then have "\<not> list_all is_valid fill_results"
    unfolding fr by (force simp: list_all_iff)
  with succ have "\<not> success (run_result ?r)" by simp
  with m n each show ?thesis by blast
qed

theorem fail_soft_fill_witness:
  "run_validation (example_run ''Y'') = Some [passed, passed, passed, passed]
   \<and> list_all is_valid [passed, passed, passed, passed]
   \<and> length (filter is_failed_fill (run_events (example_run ''Y''))) = 1
   \<and> (\<exists>field_mapping. run_mapping (example_run ''Y'') = Some field_mapping
        \<and> length (filter is_fill_field (run_events (example_run ''Y''))) = length field_mapping
        \<and> \<not> success (run_result (example_run ''Y'')))"
proof -
  have v: "run_validation (example_run ''Y'') = Some [passed, passed, passed, passed]"
    using example_run_Y by simp
  have p: "list_all is_valid [passed, passed, passed, passed]"
    by (simp add: passed_def)
  have "map is_failed_fill (run_events (example_run ''Y''))
      = [False, False, False, False, False, False, False, False, True, False, False, False]"
    using example_run_Y by simp
  then have "length (filter id (map is_failed_fill (run_events (example_run ''Y'')))) = 1"
    by simp
  then have one: "length (filter is_failed_fill (run_events (example_run ''Y''))) = 1"
    by (simp add: filter_map comp_def)
  from fail_soft_fill [OF v [unfolded example_run_def] p one [unfolded example_run_def]] v p one
  show ?thesis unfolding example_run_def by blast
qed

end
